theory Spec2Isabelle
  imports Complex_Main
begin

section \<open>Build configuration\<close>

text \<open>
  Two compile-time switches decide which code is compiled: the preprocessor symbol
  \<^verbatim>\<open>PERFORMANCE\<close> (used by \<^verbatim>\<open>InterfaceBlock::GetBuffer\<close> and by
  \<^verbatim>\<open>WENO9::ApplyImplementation\<close>) and the constant expression
  \<^verbatim>\<open>CC::InterfaceParameterModelActive()\<close> (used by both constructors of
  \<^verbatim>\<open>InterfaceBlock\<close>). Both are fixed per build; the model passes them
  as a record, so that every theorem covers all four builds.
\<close>

record build_config =
  PERFORMANCE :: bool
  InterfaceParameterModelActive :: bool

text \<open>
  The exceptions thrown in the two files, and an array read outside the array, which is
  undefined behaviour in C++: after it nothing is known of the value or of the state.
\<close>

datatype error =
    invalid_argument string
  | logic_error string
  | out_of_bounds

section \<open>interface\_block.cpp: the data model\<close>

text \<open>
  A buffer is \<^verbatim>\<open>double[CC::TCX()][CC::TCY()][CC::TCZ()]\<close>. The extents are
  declared outside the sources verified here and play no role in the functions below, so a cell is
  an index triple and a buffer gives every cell its value. A \<^verbatim>\<open>double\<close> is
  modelled as a real number.
\<close>

type_synonym cell = "nat \<times> nat \<times> nat"
type_synonym buffer = "cell \<Rightarrow> real"

datatype InterfaceDescription = Levelset | VolumeFraction

datatype InterfaceState = Velocity | PressurePositive | PressureNegative

datatype InterfaceParameter = SurfaceTensionCoefficient

datatype InterfaceDescriptionBufferType = Base | RightHandSide | Reinitialized | Initial

datatype InterfaceFieldType = Description | Parameters | States

text \<open>
  The identifiers of \<^verbatim>\<open>InterfaceBlockBufferType\<close> are those that the switch of
  \<^verbatim>\<open>GetBuffer\<close> names. The enumeration itself is declared elsewhere; a value of
  the type that is none of the ten named ones (another enumerator, or a converted integer)
  is \<open>UnlistedBufferType n\<close>.
\<close>

datatype InterfaceBlockBufferType =
    LevelsetBase
  | VolumeFractionBase
  | LevelsetRightHandSide
  | VolumeFractionRightHandSide
  | LevelsetReinitialized
  | VolumeFractionReinitialized
  | InterfaceStateVelocity
  | InterfaceStatePressurePositive
  | InterfaceStatePressureNegative
  | InterfaceParameterSurfaceTensionCoefficient
  | UnlistedBufferType nat

text \<open>
  The six data members of the class, \<^verbatim>\<open>base_\<close> to \<^verbatim>\<open>parameters_\<close>
  (an Isabelle name cannot end with an underscore, so it is left out). Each is a struct of
  buffers that \<^verbatim>\<open>operator[]\<close> indexes by the matching enumeration.
\<close>

record InterfaceBlock =
  base :: "InterfaceDescription \<Rightarrow> buffer"
  right_hand_side :: "InterfaceDescription \<Rightarrow> buffer"
  reinitialized :: "InterfaceDescription \<Rightarrow> buffer"
  initial :: "InterfaceDescription \<Rightarrow> buffer"
  states :: "InterfaceState \<Rightarrow> buffer"
  parameters :: "InterfaceParameter \<Rightarrow> buffer"

text \<open>
  The accessors return references into the block. A reference is modelled by the storage
  it denotes: the member and the position inside the member. Two accessors return the same
  buffer exactly when they return the same reference. \<open>descriptions_ref\<close> plays the same
  role for the accessors that return a whole \<^verbatim>\<open>InterfaceDescriptions\<close> struct.
\<close>

datatype descriptions_ref = In_base | In_right_hand_side | In_reinitialized | In_initial

datatype buffer_ref =
    Descriptions_at descriptions_ref InterfaceDescription
  | States_at InterfaceState
  | Parameters_at InterfaceParameter

fun descriptions_of :: "InterfaceBlock \<Rightarrow> descriptions_ref \<Rightarrow> InterfaceDescription \<Rightarrow> buffer" where
  "descriptions_of blk In_base = base blk"
| "descriptions_of blk In_right_hand_side = right_hand_side blk"
| "descriptions_of blk In_reinitialized = reinitialized blk"
| "descriptions_of blk In_initial = initial blk"

fun read_buffer :: "InterfaceBlock \<Rightarrow> buffer_ref \<Rightarrow> buffer" where
  "read_buffer blk (Descriptions_at m d) = descriptions_of blk m d"
| "read_buffer blk (States_at s) = states blk s"
| "read_buffer blk (Parameters_at p) = parameters blk p"

fun write_descriptions ::
  "descriptions_ref \<Rightarrow> (InterfaceDescription \<Rightarrow> buffer) \<Rightarrow> InterfaceBlock \<Rightarrow> InterfaceBlock" where
  "write_descriptions In_base f blk = blk\<lparr>base := f\<rparr>"
| "write_descriptions In_right_hand_side f blk = blk\<lparr>right_hand_side := f\<rparr>"
| "write_descriptions In_reinitialized f blk = blk\<lparr>reinitialized := f\<rparr>"
| "write_descriptions In_initial f blk = blk\<lparr>initial := f\<rparr>"

fun write_buffer :: "buffer_ref \<Rightarrow> buffer \<Rightarrow> InterfaceBlock \<Rightarrow> InterfaceBlock" where
  "write_buffer (Descriptions_at m d) b blk =
     write_descriptions m ((descriptions_of blk m)(d := b)) blk"
| "write_buffer (States_at s) b blk = blk\<lparr>states := (states blk)(s := b)\<rparr>"
| "write_buffer (Parameters_at p) b blk = blk\<lparr>parameters := (parameters blk)(p := b)\<rparr>"

subsection \<open>Accessors\<close>

definition GetBaseBuffer :: "InterfaceDescription \<Rightarrow> buffer_ref" where
  "GetBaseBuffer interface_description = Descriptions_at In_base interface_description"

definition GetRightHandSideBuffer :: "InterfaceDescription \<Rightarrow> buffer_ref" where
  "GetRightHandSideBuffer interface_description =
     Descriptions_at In_right_hand_side interface_description"

definition GetReinitializedBuffer :: "InterfaceDescription \<Rightarrow> buffer_ref" where
  "GetReinitializedBuffer interface_description =
     Descriptions_at In_reinitialized interface_description"

definition GetInitialBuffer :: "InterfaceDescription \<Rightarrow> buffer_ref" where
  "GetInitialBuffer interface_description = Descriptions_at In_initial interface_description"

definition GetInterfaceStateBuffer :: "InterfaceState \<Rightarrow> buffer_ref" where
  "GetInterfaceStateBuffer state_type = States_at state_type"

definition GetInterfaceParameterBuffer :: "InterfaceParameter \<Rightarrow> buffer_ref" where
  "GetInterfaceParameterBuffer parameter_type = Parameters_at parameter_type"

text \<open>The overloads without argument, which return the whole struct.\<close>

definition GetBaseBuffer_all :: descriptions_ref where
  "GetBaseBuffer_all = In_base"

definition GetRightHandSideBuffer_all :: descriptions_ref where
  "GetRightHandSideBuffer_all = In_right_hand_side"

definition GetReinitializedBuffer_all :: descriptions_ref where
  "GetReinitializedBuffer_all = In_reinitialized"

definition GetInitialBuffer_all :: descriptions_ref where
  "GetInitialBuffer_all = In_initial"

text \<open>The switch over the buffer type, in the order of the source, with its default.\<close>

fun GetInterfaceDescriptionBuffer :: "InterfaceDescriptionBufferType \<Rightarrow> descriptions_ref" where
  "GetInterfaceDescriptionBuffer RightHandSide = In_right_hand_side"
| "GetInterfaceDescriptionBuffer Reinitialized = In_reinitialized"
| "GetInterfaceDescriptionBuffer Base = In_base"
| "GetInterfaceDescriptionBuffer _ = In_initial"

text \<open>
  Modelled from the spec: the position of an enumerator inside its struct, which the
  declarations of the three enumerations (outside the sources verified here) fix. The spec has
  the structs as ``fixed-size arrays indexed by enumeration ordinal'', with the
  enumerators in the order Levelset, VolumeFraction; Velocity, PressurePositive,
  PressureNegative; SurfaceTensionCoefficient. An index that names no buffer of the struct
  reads outside it.
\<close>

fun description_at_index :: "nat \<Rightarrow> error + InterfaceDescription" where
  "description_at_index n =
     (if n = 0 then Inr Levelset else if n = 1 then Inr VolumeFraction else Inl out_of_bounds)"

fun state_at_index :: "nat \<Rightarrow> error + InterfaceState" where
  "state_at_index n =
     (if n = 0 then Inr Velocity else if n = 1 then Inr PressurePositive
      else if n = 2 then Inr PressureNegative else Inl out_of_bounds)"

fun parameter_at_index :: "nat \<Rightarrow> error + InterfaceParameter" where
  "parameter_at_index n = (if n = 0 then Inr SurfaceTensionCoefficient else Inl out_of_bounds)"

fun index_of_description :: "InterfaceDescription \<Rightarrow> nat" where
  "index_of_description Levelset = 0"
| "index_of_description VolumeFraction = 1"

fun index_of_state :: "InterfaceState \<Rightarrow> nat" where
  "index_of_state Velocity = 0"
| "index_of_state PressurePositive = 1"
| "index_of_state PressureNegative = 2"

fun index_of_parameter :: "InterfaceParameter \<Rightarrow> nat" where
  "index_of_parameter SurfaceTensionCoefficient = 0"

fun GetFieldBuffer ::
  "InterfaceFieldType \<Rightarrow> nat \<Rightarrow> InterfaceDescriptionBufferType \<Rightarrow> error + buffer_ref" where
  "GetFieldBuffer Description field_index buffer_type =
     map_sum id (Descriptions_at (GetInterfaceDescriptionBuffer buffer_type))
       (description_at_index field_index)"
| "GetFieldBuffer Parameters field_index buffer_type =
     map_sum id Parameters_at (parameter_at_index field_index)"
| "GetFieldBuffer _ field_index buffer_type =
     map_sum id States_at (state_at_index field_index)"

text \<open>
  \<^verbatim>\<open>GetBuffer\<close>: nine cases common to both builds, then the part under
  \<^verbatim>\<open>#ifdef PERFORMANCE\<close>: a default that returns the surface tension coefficient
  buffer in the performance build; a case for the surface tension coefficient and a
  throwing default otherwise. The const overload has the same body.
\<close>

fun GetBuffer :: "build_config \<Rightarrow> InterfaceBlockBufferType \<Rightarrow> error + buffer_ref" where
  "GetBuffer cfg LevelsetBase = Inr (Descriptions_at In_base Levelset)"
| "GetBuffer cfg VolumeFractionBase = Inr (Descriptions_at In_base VolumeFraction)"
| "GetBuffer cfg LevelsetRightHandSide = Inr (Descriptions_at In_right_hand_side Levelset)"
| "GetBuffer cfg VolumeFractionRightHandSide =
     Inr (Descriptions_at In_right_hand_side VolumeFraction)"
| "GetBuffer cfg LevelsetReinitialized = Inr (Descriptions_at In_reinitialized Levelset)"
| "GetBuffer cfg VolumeFractionReinitialized =
     Inr (Descriptions_at In_reinitialized VolumeFraction)"
| "GetBuffer cfg InterfaceStateVelocity = Inr (States_at Velocity)"
| "GetBuffer cfg InterfaceStatePressurePositive = Inr (States_at PressurePositive)"
| "GetBuffer cfg InterfaceStatePressureNegative = Inr (States_at PressureNegative)"
| "GetBuffer cfg InterfaceParameterSurfaceTensionCoefficient =
     Inr (Parameters_at SurfaceTensionCoefficient)"
| "GetBuffer cfg (UnlistedBufferType n) =
     (if PERFORMANCE cfg then Inr (Parameters_at SurfaceTensionCoefficient)
      else Inl (invalid_argument ''Requested buffer does not exist (impossible error''))"

subsection \<open>Buffer operations and the two constructors\<close>

text \<open>
  Modelled from the spec: the three helpers of \<^verbatim>\<open>utilities/buffer_operations.h\<close>,
  which lies outside the sources verified here. The spec writes their effect as
  ``\<open>Base.* \<leftarrow> 0\<close> (both descriptors, entire block)'',
  ``\<open>RightHandSide.Levelset \<leftarrow> F\<close> (copy)'' and ``\<open>RightHandSide.VolumeFraction \<leftarrow> 0\<close>'':
  \<^verbatim>\<open>SetSingleBuffer\<close> gives every cell of one buffer the value,
  \<^verbatim>\<open>CopySingleBuffer\<close> copies a field cell by cell into one buffer, and
  \<^verbatim>\<open>SetFieldBuffer\<close> gives every cell of every buffer of a struct the value.
\<close>

definition SetSingleBuffer :: "buffer_ref \<Rightarrow> real \<Rightarrow> InterfaceBlock \<Rightarrow> InterfaceBlock" where
  "SetSingleBuffer r v blk = write_buffer r (\<lambda>c. v) blk"

definition CopySingleBuffer :: "buffer \<Rightarrow> buffer_ref \<Rightarrow> InterfaceBlock \<Rightarrow> InterfaceBlock" where
  "CopySingleBuffer src r blk = write_buffer r (\<lambda>c. src c) blk"

definition SetFieldBuffer_descriptions ::
  "descriptions_ref \<Rightarrow> real \<Rightarrow> InterfaceBlock \<Rightarrow> InterfaceBlock" where
  "SetFieldBuffer_descriptions m v blk = write_descriptions m (\<lambda>d c. v) blk"

definition SetFieldBuffer_states :: "real \<Rightarrow> InterfaceBlock \<Rightarrow> InterfaceBlock" where
  "SetFieldBuffer_states v blk = blk\<lparr>states := (\<lambda>s c. v)\<rparr>"

definition SetFieldBuffer_parameters :: "real \<Rightarrow> InterfaceBlock \<Rightarrow> InterfaceBlock" where
  "SetFieldBuffer_parameters v blk = blk\<lparr>parameters := (\<lambda>p c. v)\<rparr>"

text \<open>
  The constructor from a level-set field. \<open>blk\<close> is the storage of the object before the
  body runs, with whatever values it holds; the statements of the body follow in the order
  of the source.
\<close>

definition InterfaceBlock_of_field :: "build_config \<Rightarrow> buffer \<Rightarrow> InterfaceBlock \<Rightarrow> InterfaceBlock" where
  "InterfaceBlock_of_field cfg levelset_initial blk =
     (let b1 = SetFieldBuffer_descriptions GetBaseBuffer_all 0 blk;
          b2 = CopySingleBuffer levelset_initial (GetRightHandSideBuffer Levelset) b1;
          b3 = CopySingleBuffer levelset_initial (GetReinitializedBuffer Levelset) b2;
          b4 = SetSingleBuffer (GetRightHandSideBuffer VolumeFraction) 0 b3;
          b5 = SetSingleBuffer (GetReinitializedBuffer VolumeFraction) 0 b4;
          b6 = SetFieldBuffer_descriptions GetInitialBuffer_all 0 b5;
          b7 = SetFieldBuffer_states 0 b6
      in if InterfaceParameterModelActive cfg then SetFieldBuffer_parameters 0 b7 else b7)"

text \<open>The constructor from a uniform level-set value.\<close>

definition InterfaceBlock_of_value :: "build_config \<Rightarrow> real \<Rightarrow> InterfaceBlock \<Rightarrow> InterfaceBlock" where
  "InterfaceBlock_of_value cfg levelset_initial blk =
     (let b1 = SetSingleBuffer (GetBaseBuffer Levelset) 0 blk;
          b2 = SetSingleBuffer (GetBaseBuffer VolumeFraction)
                 (if levelset_initial > 0 then 1 else 0) b1;
          b3 = SetSingleBuffer (GetRightHandSideBuffer Levelset) levelset_initial b2;
          b4 = SetSingleBuffer (GetReinitializedBuffer Levelset) levelset_initial b3;
          b5 = SetSingleBuffer (GetRightHandSideBuffer VolumeFraction) 0 b4;
          b6 = SetSingleBuffer (GetReinitializedBuffer VolumeFraction) 0 b5;
          b7 = SetFieldBuffer_descriptions GetInitialBuffer_all 0 b6;
          b8 = SetFieldBuffer_states 0 b7
      in if InterfaceParameterModelActive cfg then SetFieldBuffer_parameters 0 b8 else b8)"

section \<open>weno9.cpp: the reconstruction kernel\<close>

text \<open>
  The arithmetic of \<^verbatim>\<open>double\<close> is not fixed by the model. The type \<open>'d\<close> of the samples
  is any type with an addition, a multiplication, a division and a one: the classes
  \<open>plus\<close>, \<open>times\<close>, \<open>inverse\<close> and \<open>one\<close> give the operations their syntax and assume no
  law of them. What is proved below holds for every such arithmetic, that of IEEE binary64
  with its rounding, infinities and NaNs among them; a division by zero is a division like
  any other, as in the code. The expressions keep the operands and the order of the
  operations of the source.

  The constants that \<^verbatim>\<open>WENO9::ApplyImplementation\<close> uses are static members
  declared in \<^verbatim>\<open>weno9.h\<close>, which lies outside the sources verified here. They are the
  parameters of the model: \<open>coef_smoothness C k j\<close> is
  \<^verbatim>\<open>coef_smoothness_k_j_\<close> (\<open>k\<close> from 0 to 4, \<open>j\<close> from 1 to 15),
  \<open>coef_weights C i\<close> is \<^verbatim>\<open>coef_weights_i_\<close> (\<open>i\<close> from 1 to 5),
  \<open>coef_stencils C i\<close> is \<^verbatim>\<open>coef_stencils_i_\<close> (\<open>i\<close> from 1 to 25), and the
  last two are \<^verbatim>\<open>epsilon_weno9_\<close> and \<^verbatim>\<open>downstream_stencil_size_\<close>.
\<close>

record 'd WENO9_constants =
  coef_smoothness :: "nat \<Rightarrow> nat \<Rightarrow> 'd"
  coef_weights :: "nat \<Rightarrow> 'd"
  coef_stencils :: "nat \<Rightarrow> 'd"
  epsilon_weno9 :: 'd
  downstream_stencil_size :: nat

text \<open>
  The parameter \<^verbatim>\<open>array\<close> has the type \<^verbatim>\<open>std::array<double, stencil_size_>\<close>:
  whatever the value of \<^verbatim>\<open>stencil_size_\<close> in \<^verbatim>\<open>weno9.h\<close>, the array that a
  caller passes has exactly that many elements. The model takes the array as the list of
  its elements and reads the constant off it, so that the lists of all lengths are the
  arrays that the function can receive under all values of the constant.
\<close>

definition stencil_size :: "'d list \<Rightarrow> nat" where
  "stencil_size array = length array"

text \<open>
  The index of a sample: \<^verbatim>\<open>downstream_stencil_size_ + evaluation_properties[0] + k * evaluation_properties[1]\<close>
  with \<open>k\<close> from \<open>-4\<close> (for \<^verbatim>\<open>v1\<close>) to \<open>4\<close> (for \<^verbatim>\<open>v9\<close>). The index is computed
  in the integers, without the wrap-around of the machine types, which the small offsets
  and strides that select a direction do not reach. An index outside the array is an
  out-of-bounds read.
\<close>

definition stencil_index :: "'d WENO9_constants \<Rightarrow> int \<times> int \<Rightarrow> int \<Rightarrow> int" where
  "stencil_index C evaluation_properties k =
     int (downstream_stencil_size C) + fst evaluation_properties + k * snd evaluation_properties"

definition in_bounds :: "'d list \<Rightarrow> int \<Rightarrow> bool" where
  "in_bounds array i = (0 \<le> i \<and> i < int (length array))"

definition read_sample :: "'d WENO9_constants \<Rightarrow> 'd list \<Rightarrow> int \<times> int \<Rightarrow> int \<Rightarrow> 'd" where
  "read_sample C array evaluation_properties k =
     array ! nat (stencil_index C evaluation_properties k)"

definition sample_offsets :: "int list" where
  "sample_offsets = [-4, -3, -2, -1, 0, 1, 2, 3, 4]"

subsection \<open>The function as a computation of its result\<close>

text \<open>
  A smoothness indicator before \<^verbatim>\<open>epsilon_weno9_\<close> is added. The source computes
  five of them by the same pattern: the \<open>k\<close>-th (from 0) uses the coefficients
  \<^verbatim>\<open>coef_smoothness_k_01_\<close> to \<^verbatim>\<open>coef_smoothness_k_15_\<close> and the five
  samples that start at \<^verbatim>\<open>v(k+1)\<close>.
\<close>

definition smoothness ::
  "('d::{plus,times}) WENO9_constants \<Rightarrow> nat \<Rightarrow> 'd \<Rightarrow> 'd \<Rightarrow> 'd \<Rightarrow> 'd \<Rightarrow> 'd \<Rightarrow> 'd" where
  "smoothness C k u1 u2 u3 u4 u5 =
     (let sk1 = coef_smoothness C k 1 * u1 + coef_smoothness C k 2 * u2
                + coef_smoothness C k 3 * u3 + coef_smoothness C k 4 * u4
                + coef_smoothness C k 5 * u5;
          sk2 = coef_smoothness C k 6 * u2 + coef_smoothness C k 7 * u3
                + coef_smoothness C k 8 * u4 + coef_smoothness C k 9 * u5;
          sk3 = coef_smoothness C k 10 * u3 + coef_smoothness C k 11 * u4
                + coef_smoothness C k 12 * u5;
          sk4 = coef_smoothness C k 13 * u4 + coef_smoothness C k 14 * u5;
          sk5 = coef_smoothness C k 15 * u5
      in u1 * sk1 + u2 * sk2 + u3 * sk3 + u4 * sk4 + u5 * sk5)"

text \<open>The indicator after \<^verbatim>\<open>s += epsilon_weno9_\<close>.\<close>

definition regularized ::
  "('d::{plus,times}) WENO9_constants \<Rightarrow> nat \<Rightarrow> 'd \<Rightarrow> 'd \<Rightarrow> 'd \<Rightarrow> 'd \<Rightarrow> 'd \<Rightarrow> 'd" where
  "regularized C k u1 u2 u3 u4 u5 = smoothness C k u1 u2 u3 u4 u5 + epsilon_weno9 C"

text \<open>The unnormalized weight \<^verbatim>\<open>a_i = coef_weights_i_ / (s_i * s_i)\<close>.\<close>

definition alpha :: "('d::{times,inverse}) WENO9_constants \<Rightarrow> nat \<Rightarrow> 'd \<Rightarrow> 'd" where
  "alpha C i s = coef_weights C i / (s * s)"

text \<open>
  The candidate value of one sub-stencil: the \<open>k\<close>-th (from 0) uses
  \<^verbatim>\<open>coef_stencils_(5k+1)_\<close> to \<^verbatim>\<open>coef_stencils_(5k+5)_\<close> and the five samples
  that start at \<^verbatim>\<open>v(k+1)\<close>.
\<close>

definition candidate ::
  "('d::{plus,times}) WENO9_constants \<Rightarrow> nat \<Rightarrow> 'd \<Rightarrow> 'd \<Rightarrow> 'd \<Rightarrow> 'd \<Rightarrow> 'd \<Rightarrow> 'd" where
  "candidate C k u1 u2 u3 u4 u5 =
     coef_stencils C (5 * k + 1) * u1 + coef_stencils C (5 * k + 2) * u2
     + coef_stencils C (5 * k + 3) * u3 + coef_stencils C (5 * k + 4) * u4
     + coef_stencils C (5 * k + 5) * u5"

text \<open>
  The normalized weights \<^verbatim>\<open>w1\<close> to \<^verbatim>\<open>w5\<close>. No divisor is tested, as in the
  source.
\<close>

definition weights ::
  "('d::{plus,times,inverse,one}) WENO9_constants
   \<Rightarrow> 'd \<Rightarrow> 'd \<Rightarrow> 'd \<Rightarrow> 'd \<Rightarrow> 'd \<Rightarrow> 'd \<Rightarrow> 'd \<Rightarrow> 'd \<Rightarrow> 'd \<Rightarrow> 'd \<times> 'd \<times> 'd \<times> 'd \<times> 'd" where
  "weights C v1 v2 v3 v4 v5 v6 v7 v8 v9 =
     (let s1 = regularized C 0 v1 v2 v3 v4 v5;
          s2 = regularized C 1 v2 v3 v4 v5 v6;
          s3 = regularized C 2 v3 v4 v5 v6 v7;
          s4 = regularized C 3 v4 v5 v6 v7 v8;
          s5 = regularized C 4 v5 v6 v7 v8 v9;
          a1 = alpha C 1 s1;
          a2 = alpha C 2 s2;
          a3 = alpha C 3 s3;
          a4 = alpha C 4 s4;
          a5 = alpha C 5 s5;
          one_a_sum = 1 / (a1 + a2 + a3 + a4 + a5)
      in (a1 * one_a_sum, a2 * one_a_sum, a3 * one_a_sum, a4 * one_a_sum, a5 * one_a_sum))"

text \<open>The weighted average that the function returns.\<close>

definition weighted_average ::
  "('d::{plus,times,inverse,one}) WENO9_constants
   \<Rightarrow> 'd \<Rightarrow> 'd \<Rightarrow> 'd \<Rightarrow> 'd \<Rightarrow> 'd \<Rightarrow> 'd \<Rightarrow> 'd \<Rightarrow> 'd \<Rightarrow> 'd \<Rightarrow> 'd" where
  "weighted_average C v1 v2 v3 v4 v5 v6 v7 v8 v9 =
     (case weights C v1 v2 v3 v4 v5 v6 v7 v8 v9 of
        (w1, w2, w3, w4, w5) \<Rightarrow>
          w1 * candidate C 0 v1 v2 v3 v4 v5
          + w2 * candidate C 1 v2 v3 v4 v5 v6
          + w3 * candidate C 2 v3 v4 v5 v6 v7
          + w4 * candidate C 3 v4 v5 v6 v7 v8
          + w5 * candidate C 4 v5 v6 v7 v8 v9)"

text \<open>
  \<^verbatim>\<open>WENO9::ApplyImplementation\<close>: the test of the size in the checked build, the
  nine reads, the arithmetic. The test compares the size of the array with
  \<^verbatim>\<open>stencil_size_\<close>, the size that the type of the array fixes.
\<close>

definition ApplyImplementation ::
  "build_config \<Rightarrow> ('d::{plus,times,inverse,one}) WENO9_constants \<Rightarrow> 'd list \<Rightarrow> int \<times> int \<Rightarrow> 'd
   \<Rightarrow> error + 'd" where
  "ApplyImplementation cfg C array evaluation_properties cell_size =
     (if \<not> PERFORMANCE cfg \<and> length array < stencil_size array
      then Inl (logic_error ''Stencil size in WENO9 is longer than provided Array'')
      else if \<not> list_all (\<lambda>k. in_bounds array (stencil_index C evaluation_properties k))
                 sample_offsets
      then Inl out_of_bounds
      else
        (let v1 = read_sample C array evaluation_properties (- 4);
             v2 = read_sample C array evaluation_properties (- 3);
             v3 = read_sample C array evaluation_properties (- 2);
             v4 = read_sample C array evaluation_properties (- 1);
             v5 = read_sample C array evaluation_properties 0;
             v6 = read_sample C array evaluation_properties 1;
             v7 = read_sample C array evaluation_properties 2;
             v8 = read_sample C array evaluation_properties 3;
             v9 = read_sample C array evaluation_properties 4
         in Inr (weighted_average C v1 v2 v3 v4 v5 v6 v7 v8 v9)))"

subsection \<open>The function as a sequence of statements on a state\<close>

text \<open>
  The state that a call can reach: the array of the caller, which the function receives by
  reference, and everything else that exists outside the call (\<open>elsewhere\<close>, of any type).
  The function is a \<^verbatim>\<open>const\<close> member of a class whose members are all static
  constants, and it takes \<^verbatim>\<open>evaluation_properties\<close> and \<^verbatim>\<open>cell_size\<close> by value.
  Its own variables live in a frame, which maps the name of a variable to its value and
  holds arbitrary values when the call starts.
\<close>

record ('d, 'm) memory =
  caller_array :: "'d list"
  elsewhere :: 'm

type_synonym 'd frame = "string \<Rightarrow> 'd"

type_synonym ('d, 'm) exec_state = "('d, 'm) memory \<times> 'd frame"

text \<open>
  The two forms of statement in the body: the definition of a variable,
  \<^verbatim>\<open>const double x = e;\<close> or \<^verbatim>\<open>double x = e;\<close>, and \<^verbatim>\<open>x += e;\<close>. A statement
  maps the state before it to the state after it.
\<close>

definition declare_local ::
  "string \<Rightarrow> (('d, 'm) memory \<Rightarrow> 'd frame \<Rightarrow> 'd) \<Rightarrow> ('d, 'm) exec_state \<Rightarrow> ('d, 'm) exec_state" where
  "declare_local x e = (\<lambda>(m, f). (m, f(x := e m f)))"

definition add_assign ::
  "string \<Rightarrow> (('d::plus, 'm) memory \<Rightarrow> 'd frame \<Rightarrow> 'd) \<Rightarrow> ('d, 'm) exec_state \<Rightarrow> ('d, 'm) exec_state" where
  "add_assign x e = (\<lambda>(m, f). (m, f(x := f x + e m f)))"

text \<open>
  The statements of the body, in their order. Lines 88 to 96 of \<^verbatim>\<open>weno9.cpp\<close>: the
  nine reads of the array.
\<close>

definition read_statements ::
  "'d WENO9_constants \<Rightarrow> int \<times> int \<Rightarrow> (('d, 'm) exec_state \<Rightarrow> ('d, 'm) exec_state) list" where
  "read_statements C evaluation_properties =
     [declare_local ''v1'' (\<lambda>m f. read_sample C (caller_array m) evaluation_properties (- 4)),
      declare_local ''v2'' (\<lambda>m f. read_sample C (caller_array m) evaluation_properties (- 3)),
      declare_local ''v3'' (\<lambda>m f. read_sample C (caller_array m) evaluation_properties (- 2)),
      declare_local ''v4'' (\<lambda>m f. read_sample C (caller_array m) evaluation_properties (- 1)),
      declare_local ''v5'' (\<lambda>m f. read_sample C (caller_array m) evaluation_properties 0),
      declare_local ''v6'' (\<lambda>m f. read_sample C (caller_array m) evaluation_properties 1),
      declare_local ''v7'' (\<lambda>m f. read_sample C (caller_array m) evaluation_properties 2),
      declare_local ''v8'' (\<lambda>m f. read_sample C (caller_array m) evaluation_properties 3),
      declare_local ''v9'' (\<lambda>m f. read_sample C (caller_array m) evaluation_properties 4)]"

text \<open>Lines 99 to 105: the smoothness indicator \<^verbatim>\<open>s1\<close>.\<close>

definition indicator_statements_1 ::
  "('d::{plus,times,inverse,one}) WENO9_constants
   \<Rightarrow> (('d, 'm) exec_state \<Rightarrow> ('d, 'm) exec_state) list" where
  "indicator_statements_1 C =
     [declare_local ''s11'' (\<lambda>m f. coef_smoothness C 0 1 * f ''v1''
          + coef_smoothness C 0 2 * f ''v2'' + coef_smoothness C 0 3 * f ''v3''
          + coef_smoothness C 0 4 * f ''v4'' + coef_smoothness C 0 5 * f ''v5''),
      declare_local ''s12'' (\<lambda>m f. coef_smoothness C 0 6 * f ''v2''
          + coef_smoothness C 0 7 * f ''v3'' + coef_smoothness C 0 8 * f ''v4''
          + coef_smoothness C 0 9 * f ''v5''),
      declare_local ''s13'' (\<lambda>m f. coef_smoothness C 0 10 * f ''v3''
          + coef_smoothness C 0 11 * f ''v4'' + coef_smoothness C 0 12 * f ''v5''),
      declare_local ''s14'' (\<lambda>m f. coef_smoothness C 0 13 * f ''v4''
          + coef_smoothness C 0 14 * f ''v5''),
      declare_local ''s15'' (\<lambda>m f. coef_smoothness C 0 15 * f ''v5''),
      declare_local ''s1'' (\<lambda>m f. f ''v1'' * f ''s11'' + f ''v2'' * f ''s12''
          + f ''v3'' * f ''s13'' + f ''v4'' * f ''s14'' + f ''v5'' * f ''s15'')]"

text \<open>Lines 107 to 113: the smoothness indicator \<^verbatim>\<open>s2\<close>.\<close>

definition indicator_statements_2 ::
  "('d::{plus,times,inverse,one}) WENO9_constants
   \<Rightarrow> (('d, 'm) exec_state \<Rightarrow> ('d, 'm) exec_state) list" where
  "indicator_statements_2 C =
     [declare_local ''s21'' (\<lambda>m f. coef_smoothness C 1 1 * f ''v2''
          + coef_smoothness C 1 2 * f ''v3'' + coef_smoothness C 1 3 * f ''v4''
          + coef_smoothness C 1 4 * f ''v5'' + coef_smoothness C 1 5 * f ''v6''),
      declare_local ''s22'' (\<lambda>m f. coef_smoothness C 1 6 * f ''v3''
          + coef_smoothness C 1 7 * f ''v4'' + coef_smoothness C 1 8 * f ''v5''
          + coef_smoothness C 1 9 * f ''v6''),
      declare_local ''s23'' (\<lambda>m f. coef_smoothness C 1 10 * f ''v4''
          + coef_smoothness C 1 11 * f ''v5'' + coef_smoothness C 1 12 * f ''v6''),
      declare_local ''s24'' (\<lambda>m f. coef_smoothness C 1 13 * f ''v5''
          + coef_smoothness C 1 14 * f ''v6''),
      declare_local ''s25'' (\<lambda>m f. coef_smoothness C 1 15 * f ''v6''),
      declare_local ''s2'' (\<lambda>m f. f ''v2'' * f ''s21'' + f ''v3'' * f ''s22''
          + f ''v4'' * f ''s23'' + f ''v5'' * f ''s24'' + f ''v6'' * f ''s25'')]"

text \<open>Lines 115 to 121: the smoothness indicator \<^verbatim>\<open>s3\<close>.\<close>

definition indicator_statements_3 ::
  "('d::{plus,times,inverse,one}) WENO9_constants
   \<Rightarrow> (('d, 'm) exec_state \<Rightarrow> ('d, 'm) exec_state) list" where
  "indicator_statements_3 C =
     [declare_local ''s31'' (\<lambda>m f. coef_smoothness C 2 1 * f ''v3''
          + coef_smoothness C 2 2 * f ''v4'' + coef_smoothness C 2 3 * f ''v5''
          + coef_smoothness C 2 4 * f ''v6'' + coef_smoothness C 2 5 * f ''v7''),
      declare_local ''s32'' (\<lambda>m f. coef_smoothness C 2 6 * f ''v4''
          + coef_smoothness C 2 7 * f ''v5'' + coef_smoothness C 2 8 * f ''v6''
          + coef_smoothness C 2 9 * f ''v7''),
      declare_local ''s33'' (\<lambda>m f. coef_smoothness C 2 10 * f ''v5''
          + coef_smoothness C 2 11 * f ''v6'' + coef_smoothness C 2 12 * f ''v7''),
      declare_local ''s34'' (\<lambda>m f. coef_smoothness C 2 13 * f ''v6''
          + coef_smoothness C 2 14 * f ''v7''),
      declare_local ''s35'' (\<lambda>m f. coef_smoothness C 2 15 * f ''v7''),
      declare_local ''s3'' (\<lambda>m f. f ''v3'' * f ''s31'' + f ''v4'' * f ''s32''
          + f ''v5'' * f ''s33'' + f ''v6'' * f ''s34'' + f ''v7'' * f ''s35'')]"

text \<open>Lines 123 to 129: the smoothness indicator \<^verbatim>\<open>s4\<close>.\<close>

definition indicator_statements_4 ::
  "('d::{plus,times,inverse,one}) WENO9_constants
   \<Rightarrow> (('d, 'm) exec_state \<Rightarrow> ('d, 'm) exec_state) list" where
  "indicator_statements_4 C =
     [declare_local ''s41'' (\<lambda>m f. coef_smoothness C 3 1 * f ''v4''
          + coef_smoothness C 3 2 * f ''v5'' + coef_smoothness C 3 3 * f ''v6''
          + coef_smoothness C 3 4 * f ''v7'' + coef_smoothness C 3 5 * f ''v8''),
      declare_local ''s42'' (\<lambda>m f. coef_smoothness C 3 6 * f ''v5''
          + coef_smoothness C 3 7 * f ''v6'' + coef_smoothness C 3 8 * f ''v7''
          + coef_smoothness C 3 9 * f ''v8''),
      declare_local ''s43'' (\<lambda>m f. coef_smoothness C 3 10 * f ''v6''
          + coef_smoothness C 3 11 * f ''v7'' + coef_smoothness C 3 12 * f ''v8''),
      declare_local ''s44'' (\<lambda>m f. coef_smoothness C 3 13 * f ''v7''
          + coef_smoothness C 3 14 * f ''v8''),
      declare_local ''s45'' (\<lambda>m f. coef_smoothness C 3 15 * f ''v8''),
      declare_local ''s4'' (\<lambda>m f. f ''v4'' * f ''s41'' + f ''v5'' * f ''s42''
          + f ''v6'' * f ''s43'' + f ''v7'' * f ''s44'' + f ''v8'' * f ''s45'')]"

text \<open>Lines 131 to 137: the smoothness indicator \<^verbatim>\<open>s5\<close>.\<close>

definition indicator_statements_5 ::
  "('d::{plus,times,inverse,one}) WENO9_constants
   \<Rightarrow> (('d, 'm) exec_state \<Rightarrow> ('d, 'm) exec_state) list" where
  "indicator_statements_5 C =
     [declare_local ''s51'' (\<lambda>m f. coef_smoothness C 4 1 * f ''v5''
          + coef_smoothness C 4 2 * f ''v6'' + coef_smoothness C 4 3 * f ''v7''
          + coef_smoothness C 4 4 * f ''v8'' + coef_smoothness C 4 5 * f ''v9''),
      declare_local ''s52'' (\<lambda>m f. coef_smoothness C 4 6 * f ''v6''
          + coef_smoothness C 4 7 * f ''v7'' + coef_smoothness C 4 8 * f ''v8''
          + coef_smoothness C 4 9 * f ''v9''),
      declare_local ''s53'' (\<lambda>m f. coef_smoothness C 4 10 * f ''v7''
          + coef_smoothness C 4 11 * f ''v8'' + coef_smoothness C 4 12 * f ''v9''),
      declare_local ''s54'' (\<lambda>m f. coef_smoothness C 4 13 * f ''v8''
          + coef_smoothness C 4 14 * f ''v9''),
      declare_local ''s55'' (\<lambda>m f. coef_smoothness C 4 15 * f ''v9''),
      declare_local ''s5'' (\<lambda>m f. f ''v5'' * f ''s51'' + f ''v6'' * f ''s52''
          + f ''v7'' * f ''s53'' + f ''v8'' * f ''s54'' + f ''v9'' * f ''s55'')]"

text \<open>Lines 140 to 144: \<^verbatim>\<open>epsilon_weno9_\<close> is added to the indicators.\<close>

definition regularization_statements ::
  "('d::{plus,times,inverse,one}) WENO9_constants
   \<Rightarrow> (('d, 'm) exec_state \<Rightarrow> ('d, 'm) exec_state) list" where
  "regularization_statements C =
     [add_assign ''s1'' (\<lambda>m f. epsilon_weno9 C),
      add_assign ''s2'' (\<lambda>m f. epsilon_weno9 C),
      add_assign ''s3'' (\<lambda>m f. epsilon_weno9 C),
      add_assign ''s4'' (\<lambda>m f. epsilon_weno9 C),
      add_assign ''s5'' (\<lambda>m f. epsilon_weno9 C)]"

text \<open>Lines 147 to 159: the weights.\<close>

definition weight_statements ::
  "('d::{plus,times,inverse,one}) WENO9_constants
   \<Rightarrow> (('d, 'm) exec_state \<Rightarrow> ('d, 'm) exec_state) list" where
  "weight_statements C =
     [declare_local ''a1'' (\<lambda>m f. coef_weights C 1 / (f ''s1'' * f ''s1'')),
      declare_local ''a2'' (\<lambda>m f. coef_weights C 2 / (f ''s2'' * f ''s2'')),
      declare_local ''a3'' (\<lambda>m f. coef_weights C 3 / (f ''s3'' * f ''s3'')),
      declare_local ''a4'' (\<lambda>m f. coef_weights C 4 / (f ''s4'' * f ''s4'')),
      declare_local ''a5'' (\<lambda>m f. coef_weights C 5 / (f ''s5'' * f ''s5'')),
      declare_local ''one_a_sum'' (\<lambda>m f. 1 / (f ''a1'' + f ''a2'' + f ''a3''
          + f ''a4'' + f ''a5'')),
      declare_local ''w1'' (\<lambda>m f. f ''a1'' * f ''one_a_sum''),
      declare_local ''w2'' (\<lambda>m f. f ''a2'' * f ''one_a_sum''),
      declare_local ''w3'' (\<lambda>m f. f ''a3'' * f ''one_a_sum''),
      declare_local ''w4'' (\<lambda>m f. f ''a4'' * f ''one_a_sum''),
      declare_local ''w5'' (\<lambda>m f. f ''a5'' * f ''one_a_sum'')]"

definition body ::
  "('d::{plus,times,inverse,one}) WENO9_constants \<Rightarrow> int \<times> int
   \<Rightarrow> (('d, 'm) exec_state \<Rightarrow> ('d, 'm) exec_state) list" where
  "body C evaluation_properties =
     read_statements C evaluation_properties
     @ indicator_statements_1 C @ indicator_statements_2 C @ indicator_statements_3 C
     @ indicator_statements_4 C @ indicator_statements_5 C
     @ regularization_statements C @ weight_statements C"

text \<open>The expression of the \<^verbatim>\<open>return\<close> statement, lines 162 to 166.\<close>

definition return_value :: "('d::{plus,times}) WENO9_constants \<Rightarrow> 'd frame \<Rightarrow> 'd" where
  "return_value C f =
     f ''w1'' * (coef_stencils C 1 * f ''v1'' + coef_stencils C 2 * f ''v2'' + coef_stencils C 3 * f ''v3'' + coef_stencils C 4 * f ''v4'' + coef_stencils C 5 * f ''v5'')
     + f ''w2'' * (coef_stencils C 6 * f ''v2'' + coef_stencils C 7 * f ''v3'' + coef_stencils C 8 * f ''v4'' + coef_stencils C 9 * f ''v5'' + coef_stencils C 10 * f ''v6'')
     + f ''w3'' * (coef_stencils C 11 * f ''v3'' + coef_stencils C 12 * f ''v4'' + coef_stencils C 13 * f ''v5'' + coef_stencils C 14 * f ''v6'' + coef_stencils C 15 * f ''v7'')
     + f ''w4'' * (coef_stencils C 16 * f ''v4'' + coef_stencils C 17 * f ''v5'' + coef_stencils C 18 * f ''v6'' + coef_stencils C 19 * f ''v7'' + coef_stencils C 20 * f ''v8'')
     + f ''w5'' * (coef_stencils C 21 * f ''v5'' + coef_stencils C 22 * f ''v6'' + coef_stencils C 23 * f ''v7'' + coef_stencils C 24 * f ''v8'' + coef_stencils C 25 * f ''v9'')"

text \<open>
  A call in a memory \<open>m\<close> with a fresh frame \<open>f\<close>: the exception, the out-of-bounds read, or
  the returned value together with the memory that the call leaves. The cast
  \<^verbatim>\<open>(void)cell_size\<close> of the checked build is not a statement with an effect.
\<close>

definition ApplyImplementation_call ::
  "build_config \<Rightarrow> ('d::{plus,times,inverse,one}) WENO9_constants \<Rightarrow> int \<times> int \<Rightarrow> 'd
   \<Rightarrow> ('d, 'm) memory \<Rightarrow> 'd frame \<Rightarrow> error + ('d \<times> ('d, 'm) memory)" where
  "ApplyImplementation_call cfg C evaluation_properties cell_size m f =
     (if \<not> PERFORMANCE cfg \<and> length (caller_array m) < stencil_size (caller_array m)
      then Inl (logic_error ''Stencil size in WENO9 is longer than provided Array'')
      else if \<not> list_all (\<lambda>k. in_bounds (caller_array m) (stencil_index C evaluation_properties k))
                 sample_offsets
      then Inl out_of_bounds
      else
        (case fold (\<lambda>statement state. statement state) (body C evaluation_properties) (m, f) of
           (m', f') \<Rightarrow> Inr (return_value C f', m')))"

text \<open>
  A set of constants for the concrete instances below: the candidate coefficients and
  linear weights of the ninth-order scheme on five-point sub-stencils, and for every
  indicator the quadratic form \<open>(u1 - u2)\<^sup>2\<close>, over the real numbers.
\<close>

definition instance_constants :: "real WENO9_constants" where
  "instance_constants =
     \<lparr>coef_smoothness = (\<lambda>k j. if j = 1 then 1 else if j = 2 then - 2 else if j = 6 then 1 else 0),
      coef_weights = (\<lambda>i. if i = 1 then 1 / 126 else if i = 2 then 10 / 63
        else if i = 3 then 10 / 21 else if i = 4 then 20 / 63 else 5 / 126),
      coef_stencils = (\<lambda>i.
        if 1 \<le> i \<and> i \<le> 25
        then [12, - 63, 137, - 163, 137,
              - 3, 17, - 43, 77, 12,
              2, - 13, 47, 27, - 3,
              - 3, 27, 47, - 13, 2,
              12, 77, - 43, 17, - 3] ! (i - 1) / 60
        else 0),
      epsilon_weno9 = 1 / 1000000,
      downstream_stencil_size = 4\<rparr>"

text \<open>
  Following the spec's words, not the code: which identifiers name an existing buffer.
  The description and state buffers always exist; a parameter buffer exists only when the
  interface-parameter model is enabled; any other value names nothing.
\<close>

fun spec_names_existing_buffer :: "build_config \<Rightarrow> InterfaceBlockBufferType \<Rightarrow> bool" where
  "spec_names_existing_buffer cfg InterfaceParameterSurfaceTensionCoefficient =
     InterfaceParameterModelActive cfg"
| "spec_names_existing_buffer cfg (UnlistedBufferType n) = False"
| "spec_names_existing_buffer cfg _ = True"

fun is_unlisted :: "InterfaceBlockBufferType \<Rightarrow> bool" where
  "is_unlisted (UnlistedBufferType n) = True"
| "is_unlisted _ = False"

text \<open>An uninitialised block and a level-set field, for the concrete instances below.\<close>

definition stale_block :: InterfaceBlock where
  "stale_block =
     \<lparr>base = (\<lambda>d c. 7), right_hand_side = (\<lambda>d c. -3), reinitialized = (\<lambda>d c. 11),
      initial = (\<lambda>d c. 5), states = (\<lambda>s c. 13), parameters = (\<lambda>p c. 17)\<rparr>"

definition ramp_field :: buffer where
  "ramp_field = (\<lambda>(i, j, k). real i - real j + 2 * real k)"

section \<open>interface\_block.cpp: theorems\<close>

lemma read_write_descriptions [simp]:
  "descriptions_of (write_descriptions m f blk) m' = (if m' = m then f else descriptions_of blk m')"
  by (cases m; cases m') simp_all

lemma write_descriptions_states [simp]:
  "states (write_descriptions m f blk) = states blk"
  by (cases m) simp_all

lemma write_descriptions_parameters [simp]:
  "parameters (write_descriptions m f blk) = parameters blk"
  by (cases m) simp_all

lemma descriptions_of_states_update [simp]:
  "descriptions_of (blk\<lparr>states := f\<rparr>) m = descriptions_of blk m"
  by (cases m) simp_all

lemma descriptions_of_parameters_update [simp]:
  "descriptions_of (blk\<lparr>parameters := f\<rparr>) m = descriptions_of blk m"
  by (cases m) simp_all

lemmas constructor_defs =
  InterfaceBlock_of_field_def InterfaceBlock_of_value_def Let_def
  SetSingleBuffer_def CopySingleBuffer_def SetFieldBuffer_descriptions_def
  SetFieldBuffer_states_def SetFieldBuffer_parameters_def
  GetBaseBuffer_def GetRightHandSideBuffer_def GetReinitializedBuffer_def GetInitialBuffer_def
  GetInterfaceStateBuffer_def GetInterfaceParameterBuffer_def
  GetBaseBuffer_all_def GetInitialBuffer_all_def

text \<open>
  C1. For every level-set field \<open>F\<close>, every build and every prior content of the storage,
  the constructor from \<open>F\<close> leaves the level-set of the right-hand-side and of the
  reinitialized role equal to \<open>F\<close> in every cell, and leaves 0 in every cell of both base
  buffers, of the volume fraction of the right-hand-side and of the reinitialized role, of
  both initial buffers, of every interface state buffer and, when the interface-parameter
  model is active, of every interface parameter buffer.
\<close>

theorem InterfaceBlock_of_field_buffers:
  "read_buffer (InterfaceBlock_of_field cfg F blk) (GetRightHandSideBuffer Levelset) c = F c
   \<and> read_buffer (InterfaceBlock_of_field cfg F blk) (GetReinitializedBuffer Levelset) c = F c
   \<and> read_buffer (InterfaceBlock_of_field cfg F blk) (GetBaseBuffer d) c = 0
   \<and> read_buffer (InterfaceBlock_of_field cfg F blk) (GetRightHandSideBuffer VolumeFraction) c = 0
   \<and> read_buffer (InterfaceBlock_of_field cfg F blk) (GetReinitializedBuffer VolumeFraction) c = 0
   \<and> read_buffer (InterfaceBlock_of_field cfg F blk) (GetInitialBuffer d) c = 0
   \<and> read_buffer (InterfaceBlock_of_field cfg F blk) (GetInterfaceStateBuffer s) c = 0
   \<and> (InterfaceParameterModelActive cfg \<longrightarrow>
        read_buffer (InterfaceBlock_of_field cfg F blk) (GetInterfaceParameterBuffer p) c = 0)"
  by (simp add: constructor_defs)

theorem InterfaceBlock_of_field_buffers_witness:
  "InterfaceParameterModelActive \<lparr>PERFORMANCE = False, InterfaceParameterModelActive = True\<rparr>
   \<and> read_buffer (InterfaceBlock_of_field
        \<lparr>PERFORMANCE = False, InterfaceParameterModelActive = True\<rparr> ramp_field stale_block)
        (GetRightHandSideBuffer Levelset) (3, 1, 2) = 6
   \<and> read_buffer (InterfaceBlock_of_field
        \<lparr>PERFORMANCE = False, InterfaceParameterModelActive = True\<rparr> ramp_field stale_block)
        (GetBaseBuffer VolumeFraction) (3, 1, 2) = 0
   \<and> read_buffer (InterfaceBlock_of_field
        \<lparr>PERFORMANCE = False, InterfaceParameterModelActive = True\<rparr> ramp_field stale_block)
        (GetInterfaceParameterBuffer SurfaceTensionCoefficient) (3, 1, 2) = 0"
  using InterfaceBlock_of_field_buffers
    [of "\<lparr>PERFORMANCE = False, InterfaceParameterModelActive = True\<rparr>" ramp_field stale_block
        "(3, 1, 2)" VolumeFraction Velocity SurfaceTensionCoefficient]
  by (simp add: ramp_field_def)

text \<open>
  C2. For every value \<open>v\<close>, every build and every prior content of the storage, the
  constructor from \<open>v\<close> leaves 0 in every cell of the base level-set; 1 in every cell of
  the base volume fraction if \<open>v > 0\<close> and 0 otherwise (so \<open>v = 0\<close> gives 0); \<open>v\<close> in every
  cell of the level-set of the right-hand-side and of the reinitialized role; and 0 in
  every cell of their volume fractions, of both initial buffers, of every interface state
  buffer and, when the interface-parameter model is active, of every interface parameter
  buffer.
\<close>

theorem InterfaceBlock_of_value_buffers:
  "read_buffer (InterfaceBlock_of_value cfg v blk) (GetBaseBuffer Levelset) c = 0
   \<and> read_buffer (InterfaceBlock_of_value cfg v blk) (GetBaseBuffer VolumeFraction) c
       = (if v > 0 then 1 else 0)
   \<and> (v = 0 \<longrightarrow> read_buffer (InterfaceBlock_of_value cfg v blk) (GetBaseBuffer VolumeFraction) c = 0)
   \<and> read_buffer (InterfaceBlock_of_value cfg v blk) (GetRightHandSideBuffer Levelset) c = v
   \<and> read_buffer (InterfaceBlock_of_value cfg v blk) (GetReinitializedBuffer Levelset) c = v
   \<and> read_buffer (InterfaceBlock_of_value cfg v blk) (GetRightHandSideBuffer VolumeFraction) c = 0
   \<and> read_buffer (InterfaceBlock_of_value cfg v blk) (GetReinitializedBuffer VolumeFraction) c = 0
   \<and> read_buffer (InterfaceBlock_of_value cfg v blk) (GetInitialBuffer d) c = 0
   \<and> read_buffer (InterfaceBlock_of_value cfg v blk) (GetInterfaceStateBuffer s) c = 0
   \<and> (InterfaceParameterModelActive cfg \<longrightarrow>
        read_buffer (InterfaceBlock_of_value cfg v blk) (GetInterfaceParameterBuffer p) c = 0)"
  by (simp add: constructor_defs)

theorem InterfaceBlock_of_value_buffers_witness:
  "InterfaceParameterModelActive \<lparr>PERFORMANCE = True, InterfaceParameterModelActive = True\<rparr>
   \<and> (0::real) = 0
   \<and> read_buffer (InterfaceBlock_of_value
        \<lparr>PERFORMANCE = True, InterfaceParameterModelActive = True\<rparr> 0 stale_block)
        (GetBaseBuffer VolumeFraction) (0, 4, 1) = 0
   \<and> read_buffer (InterfaceBlock_of_value
        \<lparr>PERFORMANCE = True, InterfaceParameterModelActive = True\<rparr> 0 stale_block)
        (GetReinitializedBuffer Levelset) (0, 4, 1) = 0
   \<and> read_buffer (InterfaceBlock_of_value
        \<lparr>PERFORMANCE = True, InterfaceParameterModelActive = True\<rparr> 0 stale_block)
        (GetInterfaceParameterBuffer SurfaceTensionCoefficient) (0, 4, 1) = 0"
  using InterfaceBlock_of_value_buffers
    [of "\<lparr>PERFORMANCE = True, InterfaceParameterModelActive = True\<rparr>" 0 stale_block
        "(0, 4, 1)" Levelset Velocity SurfaceTensionCoefficient]
  by simp

text \<open>
  C3, as the spec states it, fails: in the checked build with the interface-parameter
  model disabled, the request for the surface tension coefficient buffer names no existing
  buffer, and \<^verbatim>\<open>GetBuffer\<close> returns a reference instead of raising an error.
\<close>

theorem GetBuffer_disabled_parameter_counterexample:
  "\<not> spec_names_existing_buffer \<lparr>PERFORMANCE = False, InterfaceParameterModelActive = False\<rparr>
        InterfaceParameterSurfaceTensionCoefficient
   \<and> GetBuffer \<lparr>PERFORMANCE = False, InterfaceParameterModelActive = False\<rparr>
        InterfaceParameterSurfaceTensionCoefficient
       = Inr (Parameters_at SurfaceTensionCoefficient)"
  by simp

text \<open>
  C3, amended. \<^verbatim>\<open>GetBuffer\<close> raises an error exactly in the checked build for a
  value that is none of the ten identifiers its switch names, whatever the feature
  configuration, and the error is \<^verbatim>\<open>std::invalid_argument\<close>. In the performance
  build such a value, like the identifier of the surface tension coefficient in either
  build, returns the surface tension coefficient buffer.
\<close>

theorem GetBuffer_errors:
  "(isl (GetBuffer cfg bt) \<longleftrightarrow> \<not> PERFORMANCE cfg \<and> is_unlisted bt)
   \<and> (\<not> PERFORMANCE cfg \<and> is_unlisted bt \<longrightarrow>
        GetBuffer cfg bt = Inl (invalid_argument ''Requested buffer does not exist (impossible error''))
   \<and> (PERFORMANCE cfg \<and> is_unlisted bt \<longrightarrow>
        GetBuffer cfg bt = Inr (GetInterfaceParameterBuffer SurfaceTensionCoefficient))
   \<and> (bt = InterfaceParameterSurfaceTensionCoefficient \<longrightarrow>
        GetBuffer cfg bt = Inr (GetInterfaceParameterBuffer SurfaceTensionCoefficient))"
  by (cases bt) (simp_all add: GetInterfaceParameterBuffer_def)

theorem GetBuffer_errors_witness:
  "\<not> PERFORMANCE \<lparr>PERFORMANCE = False, InterfaceParameterModelActive = True\<rparr>
   \<and> is_unlisted (UnlistedBufferType 10)
   \<and> isl (GetBuffer \<lparr>PERFORMANCE = False, InterfaceParameterModelActive = True\<rparr>
        (UnlistedBufferType 10))
   \<and> GetBuffer \<lparr>PERFORMANCE = False, InterfaceParameterModelActive = True\<rparr>
        (UnlistedBufferType 10)
       = Inl (invalid_argument ''Requested buffer does not exist (impossible error'')"
  using GetBuffer_errors
    [of "\<lparr>PERFORMANCE = False, InterfaceParameterModelActive = True\<rparr>" "UnlistedBufferType 10"]
  by simp

text \<open>
  C10. In every build, the flattened accessor \<^verbatim>\<open>GetBuffer\<close> returns for each of
  the ten identifiers the buffer that the accessor of its role or kind returns, and
  \<^verbatim>\<open>GetFieldBuffer\<close> returns, for a field type, the position of an enumerator and
  a description role, the buffer that the direct accessor returns for that enumerator.
\<close>

theorem flattened_accessors_agree:
  "GetBuffer cfg LevelsetBase = Inr (GetBaseBuffer Levelset)
   \<and> GetBuffer cfg VolumeFractionBase = Inr (GetBaseBuffer VolumeFraction)
   \<and> GetBuffer cfg LevelsetRightHandSide = Inr (GetRightHandSideBuffer Levelset)
   \<and> GetBuffer cfg VolumeFractionRightHandSide = Inr (GetRightHandSideBuffer VolumeFraction)
   \<and> GetBuffer cfg LevelsetReinitialized = Inr (GetReinitializedBuffer Levelset)
   \<and> GetBuffer cfg VolumeFractionReinitialized = Inr (GetReinitializedBuffer VolumeFraction)
   \<and> GetBuffer cfg InterfaceStateVelocity = Inr (GetInterfaceStateBuffer Velocity)
   \<and> GetBuffer cfg InterfaceStatePressurePositive = Inr (GetInterfaceStateBuffer PressurePositive)
   \<and> GetBuffer cfg InterfaceStatePressureNegative = Inr (GetInterfaceStateBuffer PressureNegative)
   \<and> GetBuffer cfg InterfaceParameterSurfaceTensionCoefficient
       = Inr (GetInterfaceParameterBuffer SurfaceTensionCoefficient)
   \<and> GetFieldBuffer Description (index_of_description d) Base = Inr (GetBaseBuffer d)
   \<and> GetFieldBuffer Description (index_of_description d) RightHandSide
       = Inr (GetRightHandSideBuffer d)
   \<and> GetFieldBuffer Description (index_of_description d) Reinitialized
       = Inr (GetReinitializedBuffer d)
   \<and> GetFieldBuffer Description (index_of_description d) Initial = Inr (GetInitialBuffer d)
   \<and> GetFieldBuffer States (index_of_state s) role = Inr (GetInterfaceStateBuffer s)
   \<and> GetFieldBuffer Parameters (index_of_parameter p) role = Inr (GetInterfaceParameterBuffer p)"
  by (cases d; cases s; cases p)
     (simp_all add: GetBaseBuffer_def GetRightHandSideBuffer_def GetReinitializedBuffer_def
        GetInitialBuffer_def GetInterfaceStateBuffer_def GetInterfaceParameterBuffer_def)

section \<open>weno9.cpp: theorems\<close>

text \<open>
  The theorems of this section hold for every arithmetic on the samples. What the weights
  add up to, how close the result is to an affine profile and whether a divisor is zero
  depend on the rounding and on the range of binary64 arithmetic, of which the model
  assumes nothing; no theorem is stated about them.
\<close>

lemma read_statements_run:
  "fold (\<lambda>statement state. statement state) (read_statements C ep) (m, f)
   = (m, f(''v1'' := read_sample C (caller_array m) ep (- 4),
           ''v2'' := read_sample C (caller_array m) ep (- 3),
           ''v3'' := read_sample C (caller_array m) ep (- 2),
           ''v4'' := read_sample C (caller_array m) ep (- 1),
           ''v5'' := read_sample C (caller_array m) ep 0,
           ''v6'' := read_sample C (caller_array m) ep 1,
           ''v7'' := read_sample C (caller_array m) ep 2,
           ''v8'' := read_sample C (caller_array m) ep 3,
           ''v9'' := read_sample C (caller_array m) ep 4))"
  by (simp add: read_statements_def declare_local_def)

lemma indicator_statements_1_run:
  "fold (\<lambda>statement state. statement state) (indicator_statements_1 C) (m, f)
   = (m, f(''s11'' := coef_smoothness C 0 1 * f ''v1'' + coef_smoothness C 0 2 * f ''v2'' + coef_smoothness C 0 3 * f ''v3'' + coef_smoothness C 0 4 * f ''v4'' + coef_smoothness C 0 5 * f ''v5'',
           ''s12'' := coef_smoothness C 0 6 * f ''v2'' + coef_smoothness C 0 7 * f ''v3'' + coef_smoothness C 0 8 * f ''v4'' + coef_smoothness C 0 9 * f ''v5'',
           ''s13'' := coef_smoothness C 0 10 * f ''v3'' + coef_smoothness C 0 11 * f ''v4'' + coef_smoothness C 0 12 * f ''v5'',
           ''s14'' := coef_smoothness C 0 13 * f ''v4'' + coef_smoothness C 0 14 * f ''v5'',
           ''s15'' := coef_smoothness C 0 15 * f ''v5'',
           ''s1'' := smoothness C 0 (f ''v1'') (f ''v2'') (f ''v3'') (f ''v4'') (f ''v5'')))"
  by (simp add: indicator_statements_1_def declare_local_def smoothness_def Let_def)

lemma indicator_statements_2_run:
  "fold (\<lambda>statement state. statement state) (indicator_statements_2 C) (m, f)
   = (m, f(''s21'' := coef_smoothness C 1 1 * f ''v2'' + coef_smoothness C 1 2 * f ''v3'' + coef_smoothness C 1 3 * f ''v4'' + coef_smoothness C 1 4 * f ''v5'' + coef_smoothness C 1 5 * f ''v6'',
           ''s22'' := coef_smoothness C 1 6 * f ''v3'' + coef_smoothness C 1 7 * f ''v4'' + coef_smoothness C 1 8 * f ''v5'' + coef_smoothness C 1 9 * f ''v6'',
           ''s23'' := coef_smoothness C 1 10 * f ''v4'' + coef_smoothness C 1 11 * f ''v5'' + coef_smoothness C 1 12 * f ''v6'',
           ''s24'' := coef_smoothness C 1 13 * f ''v5'' + coef_smoothness C 1 14 * f ''v6'',
           ''s25'' := coef_smoothness C 1 15 * f ''v6'',
           ''s2'' := smoothness C 1 (f ''v2'') (f ''v3'') (f ''v4'') (f ''v5'') (f ''v6'')))"
  by (simp add: indicator_statements_2_def declare_local_def smoothness_def Let_def)

lemma indicator_statements_3_run:
  "fold (\<lambda>statement state. statement state) (indicator_statements_3 C) (m, f)
   = (m, f(''s31'' := coef_smoothness C 2 1 * f ''v3'' + coef_smoothness C 2 2 * f ''v4'' + coef_smoothness C 2 3 * f ''v5'' + coef_smoothness C 2 4 * f ''v6'' + coef_smoothness C 2 5 * f ''v7'',
           ''s32'' := coef_smoothness C 2 6 * f ''v4'' + coef_smoothness C 2 7 * f ''v5'' + coef_smoothness C 2 8 * f ''v6'' + coef_smoothness C 2 9 * f ''v7'',
           ''s33'' := coef_smoothness C 2 10 * f ''v5'' + coef_smoothness C 2 11 * f ''v6'' + coef_smoothness C 2 12 * f ''v7'',
           ''s34'' := coef_smoothness C 2 13 * f ''v6'' + coef_smoothness C 2 14 * f ''v7'',
           ''s35'' := coef_smoothness C 2 15 * f ''v7'',
           ''s3'' := smoothness C 2 (f ''v3'') (f ''v4'') (f ''v5'') (f ''v6'') (f ''v7'')))"
  by (simp add: indicator_statements_3_def declare_local_def smoothness_def Let_def)

lemma indicator_statements_4_run:
  "fold (\<lambda>statement state. statement state) (indicator_statements_4 C) (m, f)
   = (m, f(''s41'' := coef_smoothness C 3 1 * f ''v4'' + coef_smoothness C 3 2 * f ''v5'' + coef_smoothness C 3 3 * f ''v6'' + coef_smoothness C 3 4 * f ''v7'' + coef_smoothness C 3 5 * f ''v8'',
           ''s42'' := coef_smoothness C 3 6 * f ''v5'' + coef_smoothness C 3 7 * f ''v6'' + coef_smoothness C 3 8 * f ''v7'' + coef_smoothness C 3 9 * f ''v8'',
           ''s43'' := coef_smoothness C 3 10 * f ''v6'' + coef_smoothness C 3 11 * f ''v7'' + coef_smoothness C 3 12 * f ''v8'',
           ''s44'' := coef_smoothness C 3 13 * f ''v7'' + coef_smoothness C 3 14 * f ''v8'',
           ''s45'' := coef_smoothness C 3 15 * f ''v8'',
           ''s4'' := smoothness C 3 (f ''v4'') (f ''v5'') (f ''v6'') (f ''v7'') (f ''v8'')))"
  by (simp add: indicator_statements_4_def declare_local_def smoothness_def Let_def)

lemma indicator_statements_5_run:
  "fold (\<lambda>statement state. statement state) (indicator_statements_5 C) (m, f)
   = (m, f(''s51'' := coef_smoothness C 4 1 * f ''v5'' + coef_smoothness C 4 2 * f ''v6'' + coef_smoothness C 4 3 * f ''v7'' + coef_smoothness C 4 4 * f ''v8'' + coef_smoothness C 4 5 * f ''v9'',
           ''s52'' := coef_smoothness C 4 6 * f ''v6'' + coef_smoothness C 4 7 * f ''v7'' + coef_smoothness C 4 8 * f ''v8'' + coef_smoothness C 4 9 * f ''v9'',
           ''s53'' := coef_smoothness C 4 10 * f ''v7'' + coef_smoothness C 4 11 * f ''v8'' + coef_smoothness C 4 12 * f ''v9'',
           ''s54'' := coef_smoothness C 4 13 * f ''v8'' + coef_smoothness C 4 14 * f ''v9'',
           ''s55'' := coef_smoothness C 4 15 * f ''v9'',
           ''s5'' := smoothness C 4 (f ''v5'') (f ''v6'') (f ''v7'') (f ''v8'') (f ''v9'')))"
  by (simp add: indicator_statements_5_def declare_local_def smoothness_def Let_def)

lemma regularization_statements_run:
  "fold (\<lambda>statement state. statement state) (regularization_statements C) (m, f)
   = (m, f(''s1'' := f ''s1'' + epsilon_weno9 C, ''s2'' := f ''s2'' + epsilon_weno9 C,
           ''s3'' := f ''s3'' + epsilon_weno9 C, ''s4'' := f ''s4'' + epsilon_weno9 C,
           ''s5'' := f ''s5'' + epsilon_weno9 C))"
  by (simp add: regularization_statements_def add_assign_def)

lemma weight_statements_run:
  "fold (\<lambda>statement state. statement state) (weight_statements C) (m, f)
   = (m, f(''a1'' := alpha C 1 (f ''s1''), ''a2'' := alpha C 2 (f ''s2''),
           ''a3'' := alpha C 3 (f ''s3''), ''a4'' := alpha C 4 (f ''s4''),
           ''a5'' := alpha C 5 (f ''s5''),
           ''one_a_sum'' := 1 / (alpha C 1 (f ''s1'') + alpha C 2 (f ''s2'') + alpha C 3 (f ''s3'')
                                + alpha C 4 (f ''s4'') + alpha C 5 (f ''s5'')),
           ''w1'' := alpha C 1 (f ''s1'')
                     * (1 / (alpha C 1 (f ''s1'') + alpha C 2 (f ''s2'') + alpha C 3 (f ''s3'')
                             + alpha C 4 (f ''s4'') + alpha C 5 (f ''s5''))),
           ''w2'' := alpha C 2 (f ''s2'')
                     * (1 / (alpha C 1 (f ''s1'') + alpha C 2 (f ''s2'') + alpha C 3 (f ''s3'')
                             + alpha C 4 (f ''s4'') + alpha C 5 (f ''s5''))),
           ''w3'' := alpha C 3 (f ''s3'')
                     * (1 / (alpha C 1 (f ''s1'') + alpha C 2 (f ''s2'') + alpha C 3 (f ''s3'')
                             + alpha C 4 (f ''s4'') + alpha C 5 (f ''s5''))),
           ''w4'' := alpha C 4 (f ''s4'')
                     * (1 / (alpha C 1 (f ''s1'') + alpha C 2 (f ''s2'') + alpha C 3 (f ''s3'')
                             + alpha C 4 (f ''s4'') + alpha C 5 (f ''s5''))),
           ''w5'' := alpha C 5 (f ''s5'')
                     * (1 / (alpha C 1 (f ''s1'') + alpha C 2 (f ''s2'') + alpha C 3 (f ''s3'')
                             + alpha C 4 (f ''s4'') + alpha C 5 (f ''s5'')))))"
  by (simp add: weight_statements_def declare_local_def alpha_def)

lemma body_run:
  "(case fold (\<lambda>statement state. statement state) (body C ep) (m, f) of
      (m', f') \<Rightarrow> Inr (return_value C f', m'))
   = Inr (weighted_average C (read_sample C (caller_array m) ep (- 4))
        (read_sample C (caller_array m) ep (- 3)) (read_sample C (caller_array m) ep (- 2))
        (read_sample C (caller_array m) ep (- 1)) (read_sample C (caller_array m) ep 0)
        (read_sample C (caller_array m) ep 1) (read_sample C (caller_array m) ep 2)
        (read_sample C (caller_array m) ep 3) (read_sample C (caller_array m) ep 4), m)"
  by (simp add: body_def read_statements_run indicator_statements_1_run
    indicator_statements_2_run indicator_statements_3_run indicator_statements_4_run
    indicator_statements_5_run regularization_statements_run weight_statements_run
    return_value_def weighted_average_def weights_def regularized_def candidate_def Let_def
    numeral_2_eq_2 [symmetric])

text \<open>
  The sequence of statements computes what \<open>ApplyImplementation\<close> computes from the array
  of the caller, and it leaves the memory as it found it.
\<close>

lemma call_refines:
  "ApplyImplementation_call cfg C ep cell_size m f
   = map_sum id (\<lambda>r. (r, m)) (ApplyImplementation cfg C (caller_array m) ep cell_size')"
  unfolding ApplyImplementation_call_def body_run
  by (simp add: ApplyImplementation_def)

lemma call_value:
  "map_sum id fst (ApplyImplementation_call cfg C ep cell_size m f)
   = ApplyImplementation cfg C (caller_array m) ep cell_size'"
  unfolding call_refines [of cfg C ep cell_size m f cell_size']
  by (cases "ApplyImplementation cfg C (caller_array m) ep cell_size'") simp_all




lemma stencil_index_mirror:
  "stencil_index C (int (length array) - 1 - 2 * int (downstream_stencil_size C) - e0, - e1) k
   = int (length array) - 1 - stencil_index C (e0, e1) k"
  by (simp add: stencil_index_def)

lemma in_bounds_rev:
  "in_bounds (rev array) (int (length array) - 1 - i) = in_bounds array i"
  by (auto simp: in_bounds_def)

lemma nth_rev_mirror:
  assumes "in_bounds array i"
  shows "rev array ! nat (int (length array) - 1 - i) = array ! nat i"
proof -
  from assms have i: "0 \<le> i" "i < int (length array)"
    by (simp_all add: in_bounds_def)
  then have "nat (int (length array) - 1 - i) < length array"
    and "length array - Suc (nat (int (length array) - 1 - i)) = nat i"
    by linarith+
  then show ?thesis
    by (simp add: rev_nth)
qed

text \<open>
  The mirrored call for a window of any length: the reversed array, the stride negated and
  the offset reflected about the middle of the array read the same nine samples in the
  same order.
\<close>

lemma ApplyImplementation_mirror:
  "ApplyImplementation cfg C (rev array)
     (int (length array) - 1 - 2 * int (downstream_stencil_size C) - e0, - e1) cell_size
   = ApplyImplementation cfg C array (e0, e1) cell_size"
proof -
  let ?ep = "(int (length array) - 1 - 2 * int (downstream_stencil_size C) - e0, - e1)"
  have b: "in_bounds (rev array) (stencil_index C ?ep k) = in_bounds array (stencil_index C (e0, e1) k)"
    for k
    unfolding stencil_index_mirror by (rule in_bounds_rev)
  show ?thesis
  proof (cases "list_all (\<lambda>k. in_bounds array (stencil_index C (e0, e1) k)) sample_offsets")
    case True
    then have "read_sample C (rev array) ?ep k = read_sample C array (e0, e1) k"
      if "k \<in> set sample_offsets" for k
      using that unfolding read_sample_def stencil_index_mirror
      by (simp add: list_all_iff nth_rev_mirror)
    then show ?thesis
      by (simp add: ApplyImplementation_def stencil_size_def b sample_offsets_def)
  next
    case False
    then show ?thesis
      by (simp add: ApplyImplementation_def stencil_size_def b)
  qed
qed

text \<open>
  C8. For a window of \<open>2 * downstream_stencil_size_ + 1\<close> samples (nine, for a downstream
  size of four) and every offset and stride, the call on the reversed window with the
  offset and the stride negated returns what the call on the window returns, error
  outcomes included.
\<close>

theorem WENO9_mirror_symmetry:
  assumes len: "length array = 2 * downstream_stencil_size C + 1"
  shows "ApplyImplementation cfg C (rev array) (- e0, - e1) cell_size
         = ApplyImplementation cfg C array (e0, e1) cell_size"
  using ApplyImplementation_mirror [of cfg C array e0 e1 cell_size] len by simp

theorem WENO9_mirror_symmetry_witness:
  "length [1, 4, 2, 2, 0, 5, 6, 6, 3 :: real] = 2 * downstream_stencil_size instance_constants + 1
   \<and> ApplyImplementation \<lparr>PERFORMANCE = False, InterfaceParameterModelActive = False\<rparr>
       instance_constants [3, 6, 6, 5, 0, 2, 2, 4, 1] (0, - 1) 1
     = ApplyImplementation \<lparr>PERFORMANCE = False, InterfaceParameterModelActive = False\<rparr>
       instance_constants [1, 4, 2, 2, 0, 5, 6, 6, 3] (0, 1) 1"
proof -
  have h: "length [1, 4, 2, 2, 0, 5, 6, 6, 3 :: real]
           = 2 * downstream_stencil_size instance_constants + 1"
    by (simp add: instance_constants_def)
  from h WENO9_mirror_symmetry [OF h, of "\<lparr>PERFORMANCE = False, InterfaceParameterModelActive = False\<rparr>" 0 1 1]
  show ?thesis by simp
qed

text \<open>
  C9. Two calls in the same build on equal arrays with the same offset and stride have the
  same outcome and, when they return, return the same value, whatever the two values of
  \<^verbatim>\<open>cell_size\<close>, whatever the rest of the two memories and whatever the frames hold
  when the calls start; and a call that returns leaves the memory, the array of the caller
  and everything else, as it was before the call.
\<close>

theorem WENO9_call_pure:
  "(caller_array m = caller_array m' \<longrightarrow>
      map_sum id fst (ApplyImplementation_call cfg C ep cell_size m f)
      = map_sum id fst (ApplyImplementation_call cfg C ep cell_size' m' f'))
   \<and> (ApplyImplementation_call cfg C ep cell_size m f = Inr (r, m'') \<longrightarrow> m'' = m)"
proof (intro conjI impI)
  assume "caller_array m = caller_array m'"
  then show "map_sum id fst (ApplyImplementation_call cfg C ep cell_size m f)
      = map_sum id fst (ApplyImplementation_call cfg C ep cell_size' m' f')"
    by (simp add: call_value [of cfg C ep cell_size m f cell_size]
        call_value [of cfg C ep cell_size' m' f' cell_size])
next
  assume "ApplyImplementation_call cfg C ep cell_size m f = Inr (r, m'')"
  then show "m'' = m"
    unfolding call_refines [of cfg C ep cell_size m f cell_size]
    by (cases "ApplyImplementation cfg C (caller_array m) ep cell_size") simp_all
qed

theorem WENO9_call_pure_witness:
  "caller_array \<lparr>caller_array = [1, 3, 5, 7, 9, 11, 13, 15, 17 :: real], elsewhere = (5 :: nat)\<rparr>
     = caller_array \<lparr>caller_array = [1, 3, 5, 7, 9, 11, 13, 15, 17], elsewhere = (7 :: nat)\<rparr>
   \<and> map_sum id fst (ApplyImplementation_call
         \<lparr>PERFORMANCE = False, InterfaceParameterModelActive = False\<rparr> instance_constants (0, 1) 1
         \<lparr>caller_array = [1, 3, 5, 7, 9, 11, 13, 15, 17], elsewhere = (5 :: nat)\<rparr> (\<lambda>x. 0))
     = map_sum id fst (ApplyImplementation_call
         \<lparr>PERFORMANCE = False, InterfaceParameterModelActive = False\<rparr> instance_constants (0, 1) 2
         \<lparr>caller_array = [1, 3, 5, 7, 9, 11, 13, 15, 17], elsewhere = (7 :: nat)\<rparr> (\<lambda>x. 1))
   \<and> ApplyImplementation_call
         \<lparr>PERFORMANCE = False, InterfaceParameterModelActive = False\<rparr> instance_constants (0, 1) 1
         \<lparr>caller_array = [1, 3, 5, 7, 9, 11, 13, 15, 17], elsewhere = (5 :: nat)\<rparr> (\<lambda>x. 0)
     = Inr (10, \<lparr>caller_array = [1, 3, 5, 7, 9, 11, 13, 15, 17], elsewhere = (5 :: nat)\<rparr>)"
proof -
  let ?cfg = "\<lparr>PERFORMANCE = False, InterfaceParameterModelActive = False\<rparr>"
  let ?m = "\<lparr>caller_array = [1, 3, 5, 7, 9, 11, 13, 15, 17 :: real], elsewhere = (5 :: nat)\<rparr>"
  let ?m' = "\<lparr>caller_array = [1, 3, 5, 7, 9, 11, 13, 15, 17 :: real], elsewhere = (7 :: nat)\<rparr>"
  have sm: "smoothness instance_constants k u1 u2 u3 u4 u5 = (u1 - u2) * (u1 - u2)"
    for k u1 u2 u3 u4 u5
    by (simp add: smoothness_def instance_constants_def algebra_simps)
  have r: "read_sample instance_constants [1, 3, 5, 7, 9, 11, 13, 15, 17] (0, 1) (- 4) = 1"
    "read_sample instance_constants [1, 3, 5, 7, 9, 11, 13, 15, 17] (0, 1) (- 3) = 3"
    "read_sample instance_constants [1, 3, 5, 7, 9, 11, 13, 15, 17] (0, 1) (- 2) = 5"
    "read_sample instance_constants [1, 3, 5, 7, 9, 11, 13, 15, 17] (0, 1) (- 1) = 7"
    "read_sample instance_constants [1, 3, 5, 7, 9, 11, 13, 15, 17] (0, 1) 0 = 9"
    "read_sample instance_constants [1, 3, 5, 7, 9, 11, 13, 15, 17] (0, 1) 1 = 11"
    "read_sample instance_constants [1, 3, 5, 7, 9, 11, 13, 15, 17] (0, 1) 2 = 13"
    "read_sample instance_constants [1, 3, 5, 7, 9, 11, 13, 15, 17] (0, 1) 3 = 15"
    "read_sample instance_constants [1, 3, 5, 7, 9, 11, 13, 15, 17] (0, 1) 4 = 17"
    by (simp_all add: read_sample_def stencil_index_def instance_constants_def)
  have w: "weights instance_constants 1 3 5 7 9 11 13 15 17
           = (1 / 126, 10 / 63, 10 / 21, 20 / 63, 5 / 126)"
    unfolding weights_def regularized_def sm alpha_def Let_def
    by (simp add: instance_constants_def)
  have a: "ApplyImplementation ?cfg instance_constants [1, 3, 5, 7, 9, 11, 13, 15, 17] (0, 1) 1
           = Inr 10"
    unfolding ApplyImplementation_def Let_def r weighted_average_def w
    by (simp add: stencil_size_def sample_offsets_def in_bounds_def stencil_index_def
        candidate_def instance_constants_def)
  have c: "ApplyImplementation_call ?cfg instance_constants (0, 1) 1 ?m (\<lambda>x. 0) = Inr (10, ?m)"
    unfolding call_refines [of ?cfg instance_constants "(0, 1)" 1 ?m "\<lambda>x. 0" 1]
    by (simp add: a)
  from c WENO9_call_pure [of ?m ?m' ?cfg instance_constants "(0, 1)" 1 "\<lambda>x. 0" 2 "\<lambda>x. 1" 10 ?m]
  show ?thesis
    by simp
qed

end
